theory Spec2Isabelle
  imports Complex_Main
begin

section \<open>Numbers\<close>

text \<open>
  The amounts of \<^verbatim>\<open>app.py\<close> are Python numbers: the income is a \<^verbatim>\<open>float\<close>, the
  thresholds and rates of a bracket are the \<^verbatim>\<open>int\<close>s and \<^verbatim>\<open>float\<close>s of the decoded
  JSON. \<^verbatim>\<open>compute_tax\<close> is embedded twice. The first embedding takes the numbers by
  their values, as rationals, with exact arithmetic; it decides what the
  comparisons of the source decide, and it rounds exact decimals. The second
  embedding, \<open>compute_tax_float\<close> below, computes as Python does, in \<^verbatim>\<open>int\<close>s and
  binary floating point; the statements about the amounts that are computed are
  made on it. Python's \<^verbatim>\<open>round(x, ndigits)\<close> rounds to the nearest multiple of
  \<open>10\<^sup>-\<^sup>n\<close> and a tie to the even neighbour.
\<close>

definition round_half_even :: "rat \<Rightarrow> int" where
  "round_half_even x =
     (let f = \<lfloor>x\<rfloor>; d = x - of_int f
      in if d < 1 / 2 then f
         else if 1 / 2 < d then f + 1
         else if even f then f else f + 1)"

definition round_py :: "rat \<Rightarrow> nat \<Rightarrow> rat" where
  "round_py x ndigits = of_int (round_half_even (x * 10 ^ ndigits)) / 10 ^ ndigits"

section \<open>Tax brackets and the tax computation\<close>

text \<open>
  A bracket is a dictionary with the keys \<^verbatim>\<open>min\<close> and \<^verbatim>\<open>rate\<close> and, except for an
  open-ended bracket, \<^verbatim>\<open>max\<close>. The tax data of a year is a dictionary whose key
  \<^verbatim>\<open>tax_brackets\<close> holds the list of brackets. The records have the type of the
  numbers as a parameter: the rationals here, Python's numbers further down.
\<close>

record 'n bracket_rec =
  min_b :: 'n
  max_b :: "'n option"
  rate :: 'n

record 'n tax_data_rec =
  tax_brackets :: "'n bracket_rec list"

type_synonym bracket = "rat bracket_rec"

type_synonym tax_data = "rat tax_data_rec"

text \<open>An entry of \<^verbatim>\<open>tax_details\<close>: the keys \<^verbatim>\<open>min\<close>, \<^verbatim>\<open>max\<close> (when the bracket has
  one) and \<^verbatim>\<open>tax_paid\<close>.\<close>

record 'n detail_rec =
  min_d :: 'n
  max_d :: "'n option"
  tax_paid :: 'n

type_synonym detail = "rat detail_rec"

text \<open>
  One pass of the body of the \<^verbatim>\<open>for\<close> loop of \<^verbatim>\<open>compute_tax\<close>, on the running
  \<^verbatim>\<open>total_tax\<close> and the \<^verbatim>\<open>tax_details\<close> collected so far. The two branches are kept
  apart as in the source; the second rounds the recorded amount twice.
\<close>

fun bracket_step :: "rat \<Rightarrow> bracket \<Rightarrow> rat \<times> detail list \<Rightarrow> rat \<times> detail list" where
  "bracket_step income b (total_tax, tax_details) =
     (case max_b b of
        Some m \<Rightarrow>
          (if income > min_b b then
             (let taxable_income = min income m - min_b b;
                  tax = taxable_income * rate b;
                  total_tax = total_tax + tax;
                  tax = round_py tax 2
              in (total_tax,
                  tax_details @ [\<lparr>min_d = min_b b, max_d = Some m, tax_paid = tax\<rparr>]))
           else (total_tax, tax_details))
      | None \<Rightarrow>
          (if income > min_b b then
             (let taxable_income = income - min_b b;
                  tax = taxable_income * rate b;
                  total_tax = total_tax + tax;
                  tax = round_py tax 2
              in (total_tax,
                  tax_details @ [\<lparr>min_d = min_b b, max_d = None, tax_paid = round_py tax 2\<rparr>]))
           else (total_tax, tax_details)))"

fun bracket_loop :: "rat \<Rightarrow> bracket list \<Rightarrow> rat \<times> detail list \<Rightarrow> rat \<times> detail list" where
  "bracket_loop income [] acc = acc"
| "bracket_loop income (b # bs) acc = bracket_loop income bs (bracket_step income b acc)"

text \<open>\<^verbatim>\<open>compute_tax\<close> returns the tuple \<^verbatim>\<open>(total_tax, tax_details, effective_rate)\<close>. The
  effective rate is computed from the running total before that total is rounded.\<close>

definition compute_tax :: "rat \<Rightarrow> tax_data \<Rightarrow> rat \<times> detail list \<times> rat" where
  "compute_tax income td =
     (case bracket_loop income (tax_brackets td) (0, []) of
        (total_tax, tax_details) \<Rightarrow>
          (let effective_rate =
                 (if income > 0 then round_py ((total_tax / income) * 100) 2 else 0);
               total_tax = round_py total_tax 2
           in (total_tax, tax_details, effective_rate)))"

section \<open>Python's numbers\<close>

text \<open>
  A \<^verbatim>\<open>float\<close> is a binary64 number: a finite value, an infinity or NaN. The two
  zeros are not told apart; they are equal in Python, and no operation of
  \<^verbatim>\<open>compute_tax\<close> depends on the sign of a zero. A number is an \<^verbatim>\<open>int\<close> of any size
  or a \<^verbatim>\<open>float\<close>.
\<close>

datatype pyfloat = Fin rat | PInf | NInf | NaN

datatype num = PyInt int | PyFloat pyfloat

datatype py_error = OverflowError | ZeroDivisionError

text \<open>\<^verbatim>\<open>int.bit_length\<close>, for a positive integer.\<close>

function bit_length :: "int \<Rightarrow> nat" where
  "bit_length n = (if n \<le> 0 then 0 else Suc (bit_length (n div 2)))"
  by pat_completeness auto
termination
  by (relation "measure nat") auto

text \<open>The exponent \<open>e\<close> of a rational \<open>x\<close> that is not 0: the absolute value of \<open>x\<close> is
  at least \<^verbatim>\<open>2**e\<close> and less than \<^verbatim>\<open>2**(e+1)\<close>.\<close>

definition ilog2 :: "rat \<Rightarrow> int" where
  "ilog2 x =
     (case quotient_of \<bar>x\<bar> of
        (p, q) \<Rightarrow>
          (let d = int (bit_length p) - int (bit_length q)
           in if (if 0 \<le> d then q * 2 ^ nat d \<le> p else q \<le> p * 2 ^ nat (- d))
              then d else d - 1))"

text \<open>
  Rounding to binary64, to the nearest float and a tie to the one with the even
  significand: the significand has 53 bits, so a value with the exponent \<open>e\<close> is
  rounded to a multiple of \<^verbatim>\<open>2**(e-52)\<close>, and never to less than a multiple of
  \<^verbatim>\<open>2**-1074\<close>, the step of the subnormal numbers. The result is an infinity when
  the rounded value reaches \<^verbatim>\<open>2**1024\<close>: when the exponent is 1024 or more, or is
  1023 with a significand rounded up to \<^verbatim>\<open>2**53\<close>.
\<close>

definition fl :: "rat \<Rightarrow> pyfloat" where
  "fl x =
     (if x = 0 then Fin 0
      else
        (let e = ilog2 x;
             q = 2 powi (max (e - 52) (- 1074));
             m = round_half_even (x / q)
         in if 1024 \<le> e \<or> (e = 1023 \<and> 2 ^ 53 \<le> \<bar>m\<bar>)
            then (if 0 < x then PInf else NInf)
            else Fin (of_int m * q)))"

text \<open>The float that a decimal denotes, in the source text of a program and in JSON.\<close>

definition float_lit :: "rat \<Rightarrow> num" where
  "float_lit x = PyFloat (fl x)"

text \<open>The operations of IEEE 754 on floats: the exact result, rounded.\<close>

fun fsign :: "pyfloat \<Rightarrow> int" where
  "fsign (Fin a) = (if 0 < a then 1 else if a < 0 then - 1 else 0)"
| "fsign PInf = 1"
| "fsign NInf = - 1"
| "fsign NaN = 0"

fun float_neg :: "pyfloat \<Rightarrow> pyfloat" where
  "float_neg (Fin a) = Fin (- a)"
| "float_neg PInf = NInf"
| "float_neg NInf = PInf"
| "float_neg NaN = NaN"

fun float_add :: "pyfloat \<Rightarrow> pyfloat \<Rightarrow> pyfloat" where
  "float_add (Fin a) (Fin b) = fl (a + b)"
| "float_add NaN y = NaN"
| "float_add x NaN = NaN"
| "float_add PInf NInf = NaN"
| "float_add NInf PInf = NaN"
| "float_add PInf y = PInf"
| "float_add NInf y = NInf"
| "float_add x PInf = PInf"
| "float_add x NInf = NInf"

definition float_sub :: "pyfloat \<Rightarrow> pyfloat \<Rightarrow> pyfloat" where
  "float_sub x y = float_add x (float_neg y)"

fun float_mul :: "pyfloat \<Rightarrow> pyfloat \<Rightarrow> pyfloat" where
  "float_mul (Fin a) (Fin b) = fl (a * b)"
| "float_mul x y =
     (if x = NaN \<or> y = NaN \<or> fsign x * fsign y = 0 then NaN
      else if 0 < fsign x * fsign y then PInf else NInf)"

text \<open>The quotient by a float that is not 0; Python tests for 0 before it divides.\<close>

fun float_div :: "pyfloat \<Rightarrow> pyfloat \<Rightarrow> pyfloat" where
  "float_div (Fin a) (Fin b) = fl (a / b)"
| "float_div NaN y = NaN"
| "float_div x NaN = NaN"
| "float_div (Fin a) y = Fin 0"
| "float_div x (Fin b) = (if 0 < fsign x * fsign (Fin b) then PInf else NInf)"
| "float_div x y = NaN"

fun float_lt :: "pyfloat \<Rightarrow> pyfloat \<Rightarrow> bool" where
  "float_lt (Fin a) (Fin b) = (a < b)"
| "float_lt NaN y = False"
| "float_lt x NaN = False"
| "float_lt NInf y = (y \<noteq> NInf)"
| "float_lt x PInf = (x \<noteq> PInf)"
| "float_lt x y = False"

text \<open>
  \<^verbatim>\<open>round(x, ndigits)\<close> on a float: the decimal with \<^verbatim>\<open>ndigits\<close> digits nearest to the
  exact value of the float, a tie to the even digit, and then the float nearest to
  that decimal; an infinity and NaN are returned as they are.
\<close>

fun float_round :: "pyfloat \<Rightarrow> nat \<Rightarrow> pyfloat" where
  "float_round (Fin a) ndigits = fl (of_int (round_half_even (a * 10 ^ ndigits)) / 10 ^ ndigits)"
| "float_round x ndigits = x"

text \<open>
  The operations of Python on numbers. An exception is the left side of a sum.
  A comparison of an \<^verbatim>\<open>int\<close> with a \<^verbatim>\<open>float\<close> compares the exact values. Arithmetic
  on two \<^verbatim>\<open>int\<close>s is exact; otherwise an \<^verbatim>\<open>int\<close> is first converted to the nearest
  float, with an \<^verbatim>\<open>OverflowError\<close> when it is too large for one. \<^verbatim>\<open>min(a, b)\<close> is \<^verbatim>\<open>a\<close>
  unless \<^verbatim>\<open>b < a\<close>. \<^verbatim>\<open>round\<close> leaves an \<^verbatim>\<open>int\<close> as it is.
\<close>

definition and_then :: "'e + 'a \<Rightarrow> ('a \<Rightarrow> 'e + 'b) \<Rightarrow> 'e + 'b" where
  "and_then r f = (case r of Inl e \<Rightarrow> Inl e | Inr x \<Rightarrow> f x)"

fun exact_value :: "num \<Rightarrow> pyfloat" where
  "exact_value (PyInt n) = Fin (of_int n)"
| "exact_value (PyFloat x) = x"

definition num_lt :: "num \<Rightarrow> num \<Rightarrow> bool" where
  "num_lt a b = float_lt (exact_value a) (exact_value b)"

definition num_gt :: "num \<Rightarrow> num \<Rightarrow> bool" where
  "num_gt a b = num_lt b a"

definition num_min :: "num \<Rightarrow> num \<Rightarrow> num" where
  "num_min a b = (if num_lt b a then b else a)"

fun to_float :: "num \<Rightarrow> py_error + pyfloat" where
  "to_float (PyInt n) = (case fl (of_int n) of Fin a \<Rightarrow> Inr (Fin a) | x \<Rightarrow> Inl OverflowError)"
| "to_float (PyFloat x) = Inr x"

fun num_arith ::
  "(int \<Rightarrow> int \<Rightarrow> int) \<Rightarrow> (pyfloat \<Rightarrow> pyfloat \<Rightarrow> pyfloat) \<Rightarrow> num \<Rightarrow> num \<Rightarrow> py_error + num" where
  "num_arith iop fop (PyInt m) (PyInt n) = Inr (PyInt (iop m n))"
| "num_arith iop fop a b =
     and_then (to_float a) (\<lambda>x. and_then (to_float b) (\<lambda>y. Inr (PyFloat (fop x y))))"

definition num_add :: "num \<Rightarrow> num \<Rightarrow> py_error + num" where
  "num_add = num_arith (+) float_add"

definition num_sub :: "num \<Rightarrow> num \<Rightarrow> py_error + num" where
  "num_sub = num_arith (-) float_sub"

definition num_mul :: "num \<Rightarrow> num \<Rightarrow> py_error + num" where
  "num_mul = num_arith (*) float_mul"

text \<open>The division \<^verbatim>\<open>/\<close>: of two \<^verbatim>\<open>int\<close>s, the float nearest to the exact quotient.\<close>

fun num_truediv :: "num \<Rightarrow> num \<Rightarrow> py_error + num" where
  "num_truediv (PyInt m) (PyInt n) =
     (if n = 0 then Inl ZeroDivisionError
      else (case fl (of_int m / of_int n) of
              Fin a \<Rightarrow> Inr (PyFloat (Fin a))
            | x \<Rightarrow> Inl OverflowError))"
| "num_truediv a b =
     and_then (to_float a) (\<lambda>x. and_then (to_float b) (\<lambda>y.
       if y = Fin 0 then Inl ZeroDivisionError else Inr (PyFloat (float_div x y))))"

fun num_round :: "num \<Rightarrow> nat \<Rightarrow> num" where
  "num_round (PyInt n) ndigits = PyInt n"
| "num_round (PyFloat x) ndigits = PyFloat (float_round x ndigits)"

section \<open>The tax computation in Python's numbers\<close>

type_synonym py_bracket = "num bracket_rec"

type_synonym py_tax_data = "num tax_data_rec"

type_synonym py_detail = "num detail_rec"

text \<open>
  The body of the loop, the loop and \<^verbatim>\<open>compute_tax\<close> once more, statement by
  statement, with the operations of Python; a statement that raises ends the
  computation with the exception.
\<close>

fun bracket_step_float ::
  "num \<Rightarrow> py_bracket \<Rightarrow> num \<times> py_detail list \<Rightarrow> py_error + num \<times> py_detail list" where
  "bracket_step_float income b (total_tax, tax_details) =
     (case max_b b of
        Some m \<Rightarrow>
          (if num_gt income (min_b b) then
             and_then (num_sub (num_min income m) (min_b b)) (\<lambda>taxable_income.
             and_then (num_mul taxable_income (rate b)) (\<lambda>tax.
             and_then (num_add total_tax tax) (\<lambda>total_tax.
               (let tax = num_round tax 2
                in Inr (total_tax,
                    tax_details @ [\<lparr>min_d = min_b b, max_d = Some m, tax_paid = tax\<rparr>])))))
           else Inr (total_tax, tax_details))
      | None \<Rightarrow>
          (if num_gt income (min_b b) then
             and_then (num_sub income (min_b b)) (\<lambda>taxable_income.
             and_then (num_mul taxable_income (rate b)) (\<lambda>tax.
             and_then (num_add total_tax tax) (\<lambda>total_tax.
               (let tax = num_round tax 2
                in Inr (total_tax,
                    tax_details @
                      [\<lparr>min_d = min_b b, max_d = None, tax_paid = num_round tax 2\<rparr>])))))
           else Inr (total_tax, tax_details)))"

fun bracket_loop_float ::
  "num \<Rightarrow> py_bracket list \<Rightarrow> num \<times> py_detail list \<Rightarrow> py_error + num \<times> py_detail list" where
  "bracket_loop_float income [] acc = Inr acc"
| "bracket_loop_float income (b # bs) acc =
     and_then (bracket_step_float income b acc) (bracket_loop_float income bs)"

definition compute_tax_float ::
  "num \<Rightarrow> py_tax_data \<Rightarrow> py_error + num \<times> py_detail list \<times> num" where
  "compute_tax_float income td =
     and_then (bracket_loop_float income (tax_brackets td) (PyInt 0, []))
       (\<lambda>(total_tax, tax_details).
     and_then
       (if num_gt income (PyInt 0) then
          and_then (num_truediv total_tax income) (\<lambda>quotient.
          and_then (num_mul quotient (PyInt 100)) (\<lambda>percent. Inr (num_round percent 2)))
        else Inr (PyInt 0))
       (\<lambda>effective_rate. Inr (num_round total_tax 2, tax_details, effective_rate)))"

section \<open>Configuration\<close>

text \<open>
  \<^verbatim>\<open>config.json\<close> is read once at start-up and is not part of the sources; its four
  entries are parameters of the model.
\<close>

record config =
  cache_max_size :: int
  supported_tax_years :: "int list"
  tax_api_url :: string
  tax_api_max_retries :: int

section \<open>Decimal text of an integer\<close>

text \<open>Python's \<^verbatim>\<open>str\<close> on an \<^verbatim>\<open>int\<close>, used in the request URL and in the message that
  lists the supported years, and \<^verbatim>\<open>sep.join\<close>.\<close>

definition digit_char :: "nat \<Rightarrow> char" where
  "digit_char d = ''0123456789'' ! (d mod 10)"

function str_nat :: "nat \<Rightarrow> string" where
  "str_nat n = (if n < 10 then [digit_char n] else str_nat (n div 10) @ [digit_char (n mod 10)])"
  by pat_completeness auto
termination
  by (relation "measure (\<lambda>n. n)") auto

definition str_int :: "int \<Rightarrow> string" where
  "str_int i = (if i < 0 then CHR ''-'' # str_nat (nat (- i)) else str_nat (nat i))"

fun join :: "string \<Rightarrow> string list \<Rightarrow> string" where
  "join sep [] = []"
| "join sep [x] = x"
| "join sep (x # y # ys) = x @ sep @ join sep (y # ys)"

section \<open>The upstream service\<close>

text \<open>
  What one call of \<^verbatim>\<open>requests.get\<close> meets: a response with a status code and a
  body, no connection, no answer in time, or a URL that \<^verbatim>\<open>requests\<close> rejects before
  anything is sent. The body of a response is the JSON of the tax data of a year,
  or something that \<^verbatim>\<open>response.json()\<close> cannot decode; what \<^verbatim>\<open>json\<close> raises then
  depends on the installed \<^verbatim>\<open>requests\<close> (its own \<^verbatim>\<open>JSONDecodeError\<close> from version
  2.27 on, a \<^verbatim>\<open>ValueError\<close> of the decoder before), so the body carries the
  exception. The service is a list of answers, one for each request made, each a
  function of the URL requested; a request consumes the head of the list, so the
  number of requests made is the number of answers consumed. An empty list stands
  for a service about which nothing more is known: a call that needs a further
  answer yields \<open>None\<close>.
\<close>

text \<open>
  The exceptions that the body of \<^verbatim>\<open>get_data\<close> can raise. All but \<^verbatim>\<open>ValueError\<close> are
  instances of \<^verbatim>\<open>requests.exceptions.RequestException\<close>. \<^verbatim>\<open>e.response\<close> is the response
  attached to the exception, of which only the status code is read; only the
  \<^verbatim>\<open>HTTPError\<close> of \<^verbatim>\<open>raise_for_status\<close> carries one.
\<close>

datatype exn = ConnectionError | Timeout | HTTPError nat | InvalidURL | JSONDecodeError | ValueError

datatype content = Json tax_data | NotJson exn

datatype reply = Response nat content | NoConnection | NoAnswerInTime | NotSent

type_synonym upstream = "(string \<Rightarrow> reply) list"

fun response :: "exn \<Rightarrow> nat option" where
  "response (HTTPError status_code) = Some status_code"
| "response e = None"

fun is_RequestException :: "exn \<Rightarrow> bool" where
  "is_RequestException ValueError = False"
| "is_RequestException e = True"

fun requests_get :: "reply \<Rightarrow> exn + (nat \<times> content)" where
  "requests_get (Response status_code body) = Inr (status_code, body)"
| "requests_get NoConnection = Inl ConnectionError"
| "requests_get NoAnswerInTime = Inl Timeout"
| "requests_get NotSent = Inl InvalidURL"

text \<open>\<^verbatim>\<open>Response.raise_for_status\<close> raises for the status codes 400 to 599.\<close>

definition raise_for_status :: "nat \<times> content \<Rightarrow> exn + unit" where
  "raise_for_status r =
     (if 400 \<le> fst r \<and> fst r < 600 then Inl (HTTPError (fst r)) else Inr ())"

text \<open>\<^verbatim>\<open>Response.json\<close>.\<close>

fun json :: "nat \<times> content \<Rightarrow> exn + tax_data" where
  "json (status_code, Json data) = Inr data"
| "json (status_code, NotJson e) = Inl e"

text \<open>The body of \<^verbatim>\<open>get_data\<close>: the request, the check of the status, the decoding.\<close>

definition get_data :: "config \<Rightarrow> int \<Rightarrow> (string \<Rightarrow> reply) \<Rightarrow> exn + tax_data" where
  "get_data cfg year service =
     (let url = tax_api_url cfg @ ''/'' @ str_int year
      in case requests_get (service url) of
           Inl e \<Rightarrow> Inl e
         | Inr r \<Rightarrow> (case raise_for_status r of Inl e \<Rightarrow> Inl e | Inr u \<Rightarrow> json r))"

section \<open>Retrying\<close>

text \<open>
  The \<^verbatim>\<open>giveup\<close> predicate handed to \<^verbatim>\<open>backoff.on_exception\<close>:
  \<^verbatim>\<open>lambda e: e.response is not None and e.response.status_code < 500\<close>.
\<close>

definition giveup :: "exn \<Rightarrow> bool" where
  "giveup e = (case response e of None \<Rightarrow> False | Some status_code \<Rightarrow> status_code < 500)"

text \<open>
  The wait generator \<^verbatim>\<open>backoff.expo\<close> with its defaults (base 2, factor 1, no
  maximum): its value number \<open>n\<close>, counted from 0. The loop hands the value to
  \<^verbatim>\<open>backoff.full_jitter\<close>, the default jitter, which draws the seconds to sleep at
  random between 0 and that value.
\<close>

definition expo :: "nat \<Rightarrow> nat" where
  "expo n = 2 ^ n"

text \<open>
  The loop of \<^verbatim>\<open>backoff.on_exception\<close>: it counts the tries, calls the function, and
  on an exception of the listed classes raises it again when \<^verbatim>\<open>giveup\<close> holds or
  the count equals \<^verbatim>\<open>max_tries\<close>, and otherwise takes the next value of the wait
  generator, sleeps and tries again; an exception of another class is not caught.
  The third component of the result lists the values taken from the wait
  generator, one for each sleep; the sleeps take time and have no other effect.
  The recursion is on the list of answers: the loop itself has no bound when
  \<^verbatim>\<open>max_tries\<close> is not positive.
\<close>

fun get_data_retry ::
  "config \<Rightarrow> int \<Rightarrow> int \<Rightarrow> upstream \<Rightarrow> (exn + tax_data) option \<times> upstream \<times> nat list" where
  "get_data_retry cfg year tries [] = (None, [], [])"
| "get_data_retry cfg year tries (service # rest) =
     (let tries = tries + 1
      in case get_data cfg year service of
           Inr ret \<Rightarrow> (Some (Inr ret), rest, [])
         | Inl e \<Rightarrow>
             (if \<not> is_RequestException e then (Some (Inl e), rest, [])
              else if giveup e \<or> tries = tax_api_max_retries cfg then (Some (Inl e), rest, [])
              else
                (case get_data_retry cfg year tries rest of
                   (r, rest', waits) \<Rightarrow> (r, rest', expo (nat (tries - 1)) # waits))))"

section \<open>The cache\<close>

text \<open>
  \<^verbatim>\<open>cachetools.LRUCache\<close> with the default size of 1 for every value: the entries in
  the order of their last use, the least recently used first, and the bound.
  Reading a key moves it to the end. Storing a value raises \<^verbatim>\<open>ValueError\<close> when the
  bound is below 1; for a new key it first drops entries from the front while the
  cache is full.
\<close>

record lru_cache =
  maxsize :: int
  entries :: "(int \<times> tax_data) list"

definition new_cache :: "config \<Rightarrow> lru_cache" where
  "new_cache cfg = \<lparr>maxsize = cache_max_size cfg, entries = []\<rparr>"

definition move_to_end :: "int \<Rightarrow> tax_data \<Rightarrow> (int \<times> tax_data) list \<Rightarrow> (int \<times> tax_data) list" where
  "move_to_end k v es = filter (\<lambda>kv. fst kv \<noteq> k) es @ [(k, v)]"

definition lru_getitem :: "lru_cache \<Rightarrow> int \<Rightarrow> (tax_data \<times> lru_cache) option" where
  "lru_getitem c k =
     (case map_of (entries c) k of
        None \<Rightarrow> None
      | Some v \<Rightarrow> Some (v, c\<lparr>entries := move_to_end k v (entries c)\<rparr>))"

definition lru_setitem :: "lru_cache \<Rightarrow> int \<Rightarrow> tax_data \<Rightarrow> lru_cache option" where
  "lru_setitem c k v =
     (if 1 > maxsize c then None
      else
        (let es = (if map_of (entries c) k = None
                   then drop (nat (int (length (entries c)) + 1 - maxsize c)) (entries c)
                   else entries c)
         in Some (c\<lparr>entries := move_to_end k v es\<rparr>)))"

section \<open>Fetching the tax data of a year\<close>

text \<open>The state that a request reads and changes: the module's cache and the
  answers the service has still to give.\<close>

record world =
  cache :: lru_cache
  service_answers :: upstream

text \<open>The store of the wrapper of \<^verbatim>\<open>cachetools.cached\<close>: \<^verbatim>\<open>cache[k] = v\<close>, where a
  \<^verbatim>\<open>ValueError\<close> is passed over.\<close>

definition cached_store :: "lru_cache \<Rightarrow> int \<Rightarrow> tax_data \<Rightarrow> lru_cache" where
  "cached_store c k v = (case lru_setitem c k v of None \<Rightarrow> c | Some c' \<Rightarrow> c')"

text \<open>
  \<^verbatim>\<open>fetch_tax_data\<close>: \<^verbatim>\<open>get_data\<close> under \<^verbatim>\<open>backoff.on_exception\<close> under
  \<^verbatim>\<open>cachetools.cached\<close>. The wrapper of \<^verbatim>\<open>cached\<close> returns the cached value of the key
  when there is one; otherwise it calls the function, stores the value returned
  and returns it. An exception of the function leaves the wrapper before the
  store. The \<^verbatim>\<open>try\<close> of \<^verbatim>\<open>fetch_tax_data\<close> logs the exception and raises it again.
\<close>

definition fetch_tax_data ::
  "config \<Rightarrow> int \<Rightarrow> world \<Rightarrow> (exn + tax_data) option \<times> world" where
  "fetch_tax_data cfg year w =
     (case lru_getitem (cache w) year of
        Some (v, c) \<Rightarrow> (Some (Inr v), w\<lparr>cache := c\<rparr>)
      | None \<Rightarrow>
          (case get_data_retry cfg year 0 (service_answers w) of
             (None, rest, waits) \<Rightarrow> (None, w\<lparr>service_answers := rest\<rparr>)
           | (Some (Inl e), rest, waits) \<Rightarrow> (Some (Inl e), w\<lparr>service_answers := rest\<rparr>)
           | (Some (Inr v), rest, waits) \<Rightarrow>
               (Some (Inr v),
                \<lparr>cache = cached_store (cache w) year v, service_answers = rest\<rparr>)))"

section \<open>The request handler\<close>

text \<open>
  \<^verbatim>\<open>request.args.get(key, type=t)\<close> yields \<^verbatim>\<open>None\<close> when the parameter is absent or
  when \<^verbatim>\<open>t\<close> rejects its text, and the converted value otherwise: a request is the
  pair of these two results. The response is the status code and the JSON body.
\<close>

record request =
  arg_annual_income :: "rat option"
  arg_tax_year :: "int option"

datatype body = Error string | Result rat "detail list" rat

type_synonym http_response = "nat \<times> body"

text \<open>The truth value Python gives to \<^verbatim>\<open>None\<close> and to a number. Past the first
  check of the handler both parameters are present, and \<open>the\<close> reads them.\<close>

fun truthy :: "'a::zero option \<Rightarrow> bool" where
  "truthy None = False"
| "truthy (Some x) = (x \<noteq> 0)"

definition calculate_tax ::
  "config \<Rightarrow> request \<Rightarrow> world \<Rightarrow> http_response option \<times> world" where
  "calculate_tax cfg req w =
     (if \<not> (truthy (arg_annual_income req) \<and> truthy (arg_tax_year req)) then
        (Some (400, Error ''Missing required parameters''), w)
      else
        (let income = the (arg_annual_income req); year = the (arg_tax_year req)
         in if year \<notin> set (supported_tax_years cfg) then
              (Some (400, Error (''Unsupported tax year. Supported years are: '' @
                  join '', '' (map str_int (supported_tax_years cfg)))), w)
            else
              (case fetch_tax_data cfg year w of
                 (None, w') \<Rightarrow> (None, w')
               | (Some (Inl e), w') \<Rightarrow> (Some (500, Error ''Internal Server Error''), w')
               | (Some (Inr td), w') \<Rightarrow>
                   (case compute_tax income td of
                      (total_tax, tax_details, effective_rate) \<Rightarrow>
                        (Some (200, Result total_tax tax_details effective_rate), w')))))"

section \<open>Notions used in the statements\<close>






text \<open>
  The same notions for Python's numbers: the test of the loop, the tax of a
  bracket before any rounding, the sum of these taxes for a list of brackets, added
  one after the other to a running total, and the amount that the loop records,
  which it rounds twice for a bracket without \<^verbatim>\<open>max\<close>.
\<close>

definition exceeds_min_float :: "num \<Rightarrow> py_bracket \<Rightarrow> bool" where
  "exceeds_min_float income b = num_gt income (min_b b)"

definition unrounded_tax_float :: "num \<Rightarrow> py_bracket \<Rightarrow> py_error + num" where
  "unrounded_tax_float income b =
     and_then (num_sub (case max_b b of Some m \<Rightarrow> num_min income m | None \<Rightarrow> income) (min_b b))
       (\<lambda>taxable_income. num_mul taxable_income (rate b))"


definition recorded_tax :: "py_bracket \<Rightarrow> num \<Rightarrow> num" where
  "recorded_tax b tax =
     (case max_b b of Some m \<Rightarrow> num_round tax 2 | None \<Rightarrow> num_round (num_round tax 2) 2)"

definition entry_float :: "num \<Rightarrow> py_bracket \<Rightarrow> py_error + py_detail" where
  "entry_float income b =
     and_then (unrounded_tax_float income b) (\<lambda>tax.
       Inr \<lparr>min_d = min_b b, max_d = max_b b, tax_paid = recorded_tax b tax\<rparr>)"


text \<open>
  A transient failure, in the words of the specification: a network error, a
  timeout, or a response whose status code is 500 or more.
\<close>

definition transient :: "exn \<Rightarrow> bool" where
  "transient e =
     (case e of
        ConnectionError \<Rightarrow> True
      | Timeout \<Rightarrow> True
      | HTTPError status_code \<Rightarrow> 500 \<le> status_code
      | InvalidURL \<Rightarrow> False
      | JSONDecodeError \<Rightarrow> False
      | ValueError \<Rightarrow> False)"

definition transient_failure :: "config \<Rightarrow> int \<Rightarrow> (string \<Rightarrow> reply) \<Rightarrow> bool" where
  "transient_failure cfg year service =
     (case get_data cfg year service of Inl e \<Rightarrow> transient e | Inr v \<Rightarrow> False)"

text \<open>
  The exceptions after which the loop goes on while tries are left: an exception
  of \<^verbatim>\<open>requests\<close> that carries no response, or one whose response has a status code
  of 500 or more.
\<close>

definition retryable :: "exn \<Rightarrow> bool" where
  "retryable e =
     (is_RequestException e \<and> (case response e of None \<Rightarrow> True | Some status_code \<Rightarrow> 500 \<le> status_code))"

definition retryable_failure :: "config \<Rightarrow> int \<Rightarrow> (string \<Rightarrow> reply) \<Rightarrow> bool" where
  "retryable_failure cfg year service =
     (case get_data cfg year service of Inl e \<Rightarrow> retryable e | Inr v \<Rightarrow> False)"

text \<open>
  The number of the attempt that decides a call which has already made \<open>tries\<close>
  attempts: the first answer that is not a retryable failure, or the attempt that
  brings the count to \<^verbatim>\<open>max_tries\<close> when that one comes first.
\<close>

definition decisive_attempt :: "config \<Rightarrow> int \<Rightarrow> int \<Rightarrow> upstream \<Rightarrow> nat" where
  "decisive_attempt cfg year tries answers =
     (let n = length (takeWhile (retryable_failure cfg year) answers) + 1;
          left = tax_api_max_retries cfg - tries
      in if 1 \<le> left \<and> nat left \<le> n then nat left else n)"


text \<open>What the cache holds, whatever the order of use.\<close>

definition cache_contents :: "lru_cache \<Rightarrow> int \<Rightarrow> tax_data option" where
  "cache_contents c = map_of (entries c)"

text \<open>
  Data for the examples: the brackets that the repository's test of a valid
  request serves, a configuration with the supported years the specification
  names, a cache that holds two years, and a service that answers a request for
  the year 2021 with those brackets.
\<close>

definition test_tax_data :: tax_data where
  "test_tax_data =
     \<lparr>tax_brackets = [\<lparr>min_b = 0, max_b = Some 50197, rate = 0.15\<rparr>,
                      \<lparr>min_b = 50197, max_b = None, rate = 0.2\<rparr>]\<rparr>"

text \<open>
  The brackets of the test as Python reads them from JSON, \<^verbatim>\<open>min\<close> and \<^verbatim>\<open>max\<close> as
  \<^verbatim>\<open>int\<close>s and the rates as floats, and a list of five brackets.
\<close>

definition test_tax_data_float :: py_tax_data where
  "test_tax_data_float =
     \<lparr>tax_brackets =
        [\<lparr>min_b = PyInt 0, max_b = Some (PyInt 50197), rate = float_lit 0.15\<rparr>,
         \<lparr>min_b = PyInt 50197, max_b = None, rate = float_lit 0.2\<rparr>]\<rparr>"

definition five_brackets :: py_tax_data where
  "five_brackets =
     \<lparr>tax_brackets =
        [\<lparr>min_b = PyInt 0, max_b = Some (PyInt 50197), rate = float_lit 0.15\<rparr>,
         \<lparr>min_b = PyInt 50197, max_b = Some (PyInt 100392), rate = float_lit 0.205\<rparr>,
         \<lparr>min_b = PyInt 100392, max_b = Some (PyInt 155625), rate = float_lit 0.26\<rparr>,
         \<lparr>min_b = PyInt 155625, max_b = Some (PyInt 221708), rate = float_lit 0.29\<rparr>,
         \<lparr>min_b = PyInt 221708, max_b = None, rate = float_lit 0.33\<rparr>]\<rparr>"

definition example_config :: config where
  "example_config =
     \<lparr>cache_max_size = 100, supported_tax_years = [2021, 2022, 2023],
      tax_api_url = ''http://tax-api'', tax_api_max_retries = 3\<rparr>"

definition warm_cache :: lru_cache where
  "warm_cache = \<lparr>maxsize = 100, entries = [(2021, test_tax_data), (2022, \<lparr>tax_brackets = []\<rparr>)]\<rparr>"

definition serves_2021 :: "string \<Rightarrow> reply" where
  "serves_2021 url =
     (if url = ''http://tax-api/2021'' then Response 200 (Json test_tax_data)
      else Response 404 (Json \<lparr>tax_brackets = []\<rparr>))"

definition answers_with :: "nat \<Rightarrow> string \<Rightarrow> reply" where
  "answers_with status_code url = Response status_code (Json \<lparr>tax_brackets = []\<rparr>)"



section \<open>Rounding\<close>

lemma round_half_even_of_int [simp]: "round_half_even (of_int n) = n"
  by (simp add: round_half_even_def)

lemma round_py_idem [simp]: "round_py (round_py x n) n = round_py x n"
  by (simp add: round_py_def)

lemma round_py_zero [simp]: "round_py 0 n = 0"
  by (simp add: round_py_def round_half_even_def)





section \<open>The loop of \<^verbatim>\<open>compute_tax\<close>\<close>






section \<open>The loop of \<^verbatim>\<open>compute_tax\<close> in Python's numbers\<close>

lemma and_then_simps [simp]:
  "and_then (Inl e) f = Inl e" "and_then (Inr x) f = f x"
  by (simp_all add: and_then_def)

lemma and_then_Inr_iff:
  "and_then r f = Inr y \<longleftrightarrow> (\<exists>x. r = Inr x \<and> f x = Inr y)"
  by (cases r) auto

lemma bracket_step_float_eq:
  "bracket_step_float income b (t, ds) =
     (if exceeds_min_float income b then
        and_then (unrounded_tax_float income b) (\<lambda>tax.
        and_then (num_add t tax) (\<lambda>t'.
          Inr (t', ds @ [\<lparr>min_d = min_b b, max_d = max_b b, tax_paid = recorded_tax b tax\<rparr>])))
      else Inr (t, ds))"
  by (cases "max_b b")
    (auto simp: exceeds_min_float_def unrounded_tax_float_def recorded_tax_def Let_def
      and_then_def split: sum.splits)

declare bracket_step_float.simps [simp del]


lemma bracket_loop_float_details:
  assumes "bracket_loop_float income bs (t, ds) = Inr (t', ds')"
  shows "map Inr ds' = map Inr ds @ map (entry_float income) (filter (exceeds_min_float income) bs)"
  using assms
proof (induction bs arbitrary: t ds)
  case Nil
  then show ?case by simp
next
  case (Cons b bs)
  show ?case
  proof (cases "exceeds_min_float income b")
    case False
    with Cons.prems have "bracket_loop_float income bs (t, ds) = Inr (t', ds')"
      by (simp add: bracket_step_float_eq)
    with False show ?thesis
      by (simp add: Cons.IH)
  next
    case True
    with Cons.prems obtain tax t1 where tax: "unrounded_tax_float income b = Inr tax"
      and "num_add t tax = Inr t1"
      and "bracket_loop_float income bs
             (t1, ds @ [\<lparr>min_d = min_b b, max_d = max_b b, tax_paid = recorded_tax b tax\<rparr>])
           = Inr (t', ds')"
      by (auto simp: bracket_step_float_eq and_then_Inr_iff)
    then have "map Inr ds' =
        map Inr (ds @ [\<lparr>min_d = min_b b, max_d = max_b b, tax_paid = recorded_tax b tax\<rparr>]) @
        map (entry_float income) (filter (exceeds_min_float income) bs)"
      by (intro Cons.IH)
    with True tax show ?thesis
      by (simp add: entry_float_def)
  qed
qed





text \<open>
  The second embedding on the inputs of the repository's test and on inputs where
  exact decimals would round to another cent: the incomes 145000 (as a float and
  as an int) and 141400 with the two brackets of the test, and 50198 and 50200 with
  the five brackets.
\<close>

lemma compute_tax_float_scenario:
  "compute_tax_float (float_lit 145000) test_tax_data_float =
     Inr (float_lit 26490.15,
          [\<lparr>min_d = PyInt 0, max_d = Some (PyInt 50197), tax_paid = float_lit 7529.55\<rparr>,
           \<lparr>min_d = PyInt 50197, max_d = None, tax_paid = float_lit 18960.6\<rparr>],
          float_lit 18.27)"
  "compute_tax_float (PyInt 145000) test_tax_data_float =
     Inr (float_lit 26490.15,
          [\<lparr>min_d = PyInt 0, max_d = Some (PyInt 50197), tax_paid = float_lit 7529.55\<rparr>,
           \<lparr>min_d = PyInt 50197, max_d = None, tax_paid = float_lit 18960.6\<rparr>],
          float_lit 18.27)"
  by code_simp+

lemma compute_tax_float_141400:
  "compute_tax_float (float_lit 141400) test_tax_data_float =
     Inr (float_lit 25770.15,
          [\<lparr>min_d = PyInt 0, max_d = Some (PyInt 50197), tax_paid = float_lit 7529.55\<rparr>,
           \<lparr>min_d = PyInt 50197, max_d = None, tax_paid = float_lit 18240.6\<rparr>],
          float_lit 18.23)"
  by code_simp


lemma compute_tax_float_50200:
  "compute_tax_float (float_lit 50200) five_brackets =
     Inr (float_lit 7530.16,
          [\<lparr>min_d = PyInt 0, max_d = Some (PyInt 50197), tax_paid = float_lit 7529.55\<rparr>,
           \<lparr>min_d = PyInt 50197, max_d = Some (PyInt 100392), tax_paid = float_lit 0.61\<rparr>],
          float_lit 15)"
  by code_simp

text \<open>An income that is not finite, and an income that is not a number.\<close>

lemma compute_tax_float_not_finite:
  "compute_tax_float (PyFloat PInf) test_tax_data_float =
     Inr (PyFloat PInf,
          [\<lparr>min_d = PyInt 0, max_d = Some (PyInt 50197), tax_paid = float_lit 7529.55\<rparr>,
           \<lparr>min_d = PyInt 50197, max_d = None, tax_paid = PyFloat PInf\<rparr>],
          PyFloat NaN)"
  "compute_tax_float (PyFloat NaN) test_tax_data_float = Inr (PyInt 0, [], PyInt 0)"
  by code_simp+

section \<open>Claims on \<^verbatim>\<open>compute_tax\<close>\<close>

text \<open>
  Claim C1. For the income 145000 and the two brackets from 0 to 50197 at 0.15 and
  from 50197 at 0.2, \<^verbatim>\<open>compute_tax\<close> returns the total 26490.15, the entries with
  7529.55 and 18960.6 paid, in this order, and the effective rate 18.27.
\<close>

theorem compute_tax_scenario:
  "compute_tax 145000
     \<lparr>tax_brackets = [\<lparr>min_b = 0, max_b = Some 50197, rate = 0.15\<rparr>,
                      \<lparr>min_b = 50197, max_b = None, rate = 0.2\<rparr>]\<rparr>
   = (26490.15,
      [\<lparr>min_d = 0, max_d = Some 50197, tax_paid = 7529.55\<rparr>,
       \<lparr>min_d = 50197, max_d = None, tax_paid = 18960.6\<rparr>],
      18.27)"
  by code_simp






text \<open>
  The order of rounding and summing can be seen in the result: two brackets with
  0.004 of tax each give the total 0.01, and the two recorded amounts are 0.
\<close>

lemma rounding_after_the_sum:
  "compute_tax_float (float_lit 1)
     \<lparr>tax_brackets = [\<lparr>min_b = PyInt 0, max_b = Some (PyInt 1), rate = float_lit 0.004\<rparr>,
                      \<lparr>min_b = PyInt 0, max_b = None, rate = float_lit 0.004\<rparr>]\<rparr>
   = Inr (float_lit 0.01,
      [\<lparr>min_d = PyInt 0, max_d = Some (PyInt 1), tax_paid = float_lit 0\<rparr>,
       \<lparr>min_d = PyInt 0, max_d = None, tax_paid = float_lit 0\<rparr>],
      float_lit 0.8)"
  by code_simp

text \<open>
  The entries of \<^verbatim>\<open>tax_details\<close> in Python's numbers: for each bracket that the
  income exceeds, in order, its \<^verbatim>\<open>min\<close> and \<^verbatim>\<open>max\<close> and its unrounded tax, rounded.
\<close>

lemma tax_details_float:
  assumes "compute_tax_float income td = Inr (total_tax, tax_details, effective_rate)"
  shows "map Inr tax_details =
           map (entry_float income) (filter (exceeds_min_float income) (tax_brackets td))"
proof -
  from assms obtain running_total where
    "bracket_loop_float income (tax_brackets td) (PyInt 0, []) = Inr (running_total, tax_details)"
    by (auto simp: compute_tax_float_def and_then_Inr_iff split: if_splits)
  from bracket_loop_float_details [OF this] show ?thesis
    by simp
qed






section \<open>The retry loop\<close>

lemma retryable_iff: "retryable e \<longleftrightarrow> is_RequestException e \<and> \<not> giveup e"
  by (cases e) (auto simp: retryable_def giveup_def)

lemma transient_retryable: "transient e \<Longrightarrow> retryable e"
  by (cases e) (auto simp: transient_def retryable_def)

lemma transient_failure_retryable:
  "transient_failure cfg year f \<Longrightarrow> retryable_failure cfg year f"
  by (auto simp: transient_failure_def retryable_failure_def transient_retryable split: sum.splits)


lemma retryable_failure_Response:
  "retryable_failure cfg year (\<lambda>url. Response code (Json data)) \<longleftrightarrow> 500 \<le> code \<and> code < 600"
  by (auto simp: retryable_failure_def get_data_def raise_for_status_def retryable_def Let_def)

lemma transient_failure_Response:
  "transient_failure cfg year (\<lambda>url. Response code (Json data)) \<longleftrightarrow> 500 \<le> code \<and> code < 600"
  by (auto simp: transient_failure_def get_data_def raise_for_status_def transient_def Let_def)

lemma transient_failure_no_response:
  "transient_failure cfg year (\<lambda>url. NoConnection)"
  "transient_failure cfg year (\<lambda>url. NoAnswerInTime)"
  by (auto simp: transient_failure_def get_data_def transient_def Let_def)

lemma decisive_attempt_pos: "0 < decisive_attempt cfg year tries answers"
  by (auto simp: decisive_attempt_def Let_def)

lemma map_upt_shift: "map f [0..<Suc n] = f 0 # map (\<lambda>i. f (Suc i)) [0..<n]"
  by (simp add: upt_conv_Cons map_Suc_upt [symmetric] del: upt_Suc)

lemma get_data_retry_decisive:
  assumes "decisive_attempt cfg year tries answers \<le> length answers" and "0 \<le> tries"
  shows "get_data_retry cfg year tries answers =
           (Some (get_data cfg year (answers ! (decisive_attempt cfg year tries answers - 1))),
            drop (decisive_attempt cfg year tries answers) answers,
            map (\<lambda>n. expo (nat tries + n)) [0..<decisive_attempt cfg year tries answers - 1])"
  using assms
proof (induction answers arbitrary: tries)
  case Nil
  then show ?case
    using decisive_attempt_pos [of cfg year tries "[]"] by simp
next
  case (Cons s rest)
  show ?case
  proof (cases "retryable_failure cfg year s \<and> tries + 1 \<noteq> tax_api_max_retries cfg")
    case False
    then have d: "decisive_attempt cfg year tries (s # rest) = 1"
      by (auto simp: decisive_attempt_def Let_def)
    from False show ?thesis
      unfolding d
      by (auto simp: retryable_failure_def retryable_iff Let_def split: sum.splits)
  next
    case True
    then have d: "decisive_attempt cfg year tries (s # rest) =
        Suc (decisive_attempt cfg year (tries + 1) rest)"
      by (auto simp: decisive_attempt_def Let_def nat_diff_distrib' nat_le_iff)
    with Cons.prems have "decisive_attempt cfg year (tries + 1) rest \<le> length rest"
      by simp
    moreover have "0 \<le> tries + 1"
      using Cons.prems by simp
    ultimately have IH: "get_data_retry cfg year (tries + 1) rest =
           (Some (get_data cfg year (rest ! (decisive_attempt cfg year (tries + 1) rest - 1))),
            drop (decisive_attempt cfg year (tries + 1) rest) rest,
            map (\<lambda>n. expo (nat (tries + 1) + n))
              [0..<decisive_attempt cfg year (tries + 1) rest - 1])"
      by (rule Cons.IH)
    from True have step:
      "get_data_retry cfg year tries (s # rest) =
         (case get_data_retry cfg year (tries + 1) rest of
            (r, rest', waits) \<Rightarrow> (r, rest', expo (nat tries) # waits))"
      by (auto simp: retryable_failure_def retryable_iff Let_def split: sum.splits)
    have pos: "0 < decisive_attempt cfg year (tries + 1) rest"
      by (rule decisive_attempt_pos)
    then obtain k where k: "decisive_attempt cfg year (tries + 1) rest = Suc k"
      by (cases "decisive_attempt cfg year (tries + 1) rest") auto
    have n: "nat (tries + 1) = Suc (nat tries)"
      using Cons.prems by simp
    show ?thesis
      unfolding step IH d k n by (simp add: map_upt_shift del: upt_Suc)
  qed
qed





lemma decisive_after_retryable_prefix:
  assumes "\<forall>f\<in>set fs. retryable_failure cfg year f"
    and "\<not> retryable_failure cfg year s"
    and "tax_api_max_retries cfg - tries < 1 \<or> int (length fs) < tax_api_max_retries cfg - tries"
  shows "decisive_attempt cfg year tries (fs @ s # rest) = length fs + 1"
proof -
  have "takeWhile (retryable_failure cfg year) (fs @ s # rest) = fs"
    using assms(1,2) by simp
  then show ?thesis
    using assms(3) by (auto simp: decisive_attempt_def Let_def)
qed

section \<open>The cache\<close>

lemma map_of_without_key:
  "map_of (filter (\<lambda>kv. fst kv \<noteq> k) es) k' = (if k' = k then None else map_of es k')"
  by (induction es) auto

lemma map_of_move_to_end:
  "map_of (move_to_end k v es) k' = (if k' = k then Some v else map_of es k')"
  by (simp add: move_to_end_def map_of_append map_of_without_key map_add_def
      split: option.split)

lemma move_to_end_twice: "move_to_end k v (move_to_end k v es) = move_to_end k v es"
  by (simp add: move_to_end_def)

lemma lru_getitem_miss: "cache_contents c k = None \<Longrightarrow> lru_getitem c k = None"
  by (simp add: lru_getitem_def cache_contents_def)

lemma lru_getitem_None: "lru_getitem c k = None \<Longrightarrow> cache_contents c k = None"
  by (simp add: lru_getitem_def cache_contents_def split: option.splits)

lemma lru_getitem_hit:
  "cache_contents c k = Some v \<Longrightarrow>
   lru_getitem c k = Some (v, c\<lparr>entries := move_to_end k v (entries c)\<rparr>)"
  by (simp add: lru_getitem_def cache_contents_def)

lemma contents_after_hit:
  "cache_contents c k = Some v \<Longrightarrow>
   cache_contents (c\<lparr>entries := move_to_end k v (entries c)\<rparr>) = cache_contents c"
  by (auto simp: cache_contents_def map_of_move_to_end)

lemma contents_cached_store:
  "cache_contents (cached_store c k v) k =
     (if 1 \<le> maxsize c then Some v else cache_contents c k)"
  by (auto simp: cached_store_def lru_setitem_def cache_contents_def map_of_move_to_end Let_def)

section \<open>\<^verbatim>\<open>fetch_tax_data\<close> on a hit and on a miss\<close>

lemma fetch_hit:
  assumes "cache_contents (cache w) year = Some v"
  shows "fetch_tax_data cfg year w =
           (Some (Inr v), w\<lparr>cache := (cache w)\<lparr>entries := move_to_end year v (entries (cache w))\<rparr>\<rparr>)"
  using assms by (simp add: fetch_tax_data_def lru_getitem_hit)

lemma fetch_miss:
  assumes "cache_contents (cache w) year = None"
    and "decisive_attempt cfg year 0 (service_answers w) \<le> length (service_answers w)"
  shows "fetch_tax_data cfg year w =
     (case get_data cfg year
             (service_answers w ! (decisive_attempt cfg year 0 (service_answers w) - 1)) of
        Inl e \<Rightarrow>
          (Some (Inl e),
           w\<lparr>service_answers :=
               drop (decisive_attempt cfg year 0 (service_answers w)) (service_answers w)\<rparr>)
      | Inr v \<Rightarrow>
          (Some (Inr v),
           \<lparr>cache = cached_store (cache w) year v,
            service_answers =
              drop (decisive_attempt cfg year 0 (service_answers w)) (service_answers w)\<rparr>))"
  using assms
  by (simp add: fetch_tax_data_def lru_getitem_miss get_data_retry_decisive split: sum.split)

lemma fetch_raises:
  assumes "fst (fetch_tax_data cfg year w) = Some (Inl e)"
  shows "cache (snd (fetch_tax_data cfg year w)) = cache w \<and>
         cache_contents (cache w) year = None"
  using assms
  by (auto simp: fetch_tax_data_def lru_getitem_None split: option.splits prod.splits sum.splits)

lemma fetch_without_answer:
  assumes "fst (fetch_tax_data cfg year w) = None"
  shows "cache (snd (fetch_tax_data cfg year w)) = cache w"
  using assms
  by (auto simp: fetch_tax_data_def split: option.splits prod.splits sum.splits)

lemma fetch_recovers:
  assumes miss: "cache_contents (cache w) year = None"
    and script: "service_answers w = fs @ s # rest"
    and fails: "\<forall>f\<in>set fs. transient_failure cfg year f"
    and tries: "tax_api_max_retries cfg < 1 \<or> int (length fs) < tax_api_max_retries cfg"
    and ok: "get_data cfg year s = Inr v"
  shows "fetch_tax_data cfg year w =
           (Some (Inr v), \<lparr>cache = cached_store (cache w) year v, service_answers = rest\<rparr>)"
proof -
  from ok have "\<not> retryable_failure cfg year s"
    by (simp add: retryable_failure_def)
  moreover from fails have "\<forall>f\<in>set fs. retryable_failure cfg year f"
    by (simp add: transient_failure_retryable)
  ultimately have d: "decisive_attempt cfg year 0 (fs @ s # rest) = length fs + 1"
    using tries decisive_after_retryable_prefix [of fs cfg year s 0 rest] by simp
  then have "decisive_attempt cfg year 0 (service_answers w) \<le> length (service_answers w)"
    using script by simp
  from fetch_miss [OF miss this] show ?thesis
    using ok by (simp add: script d)
qed

lemma fetch_changes_contents:
  assumes "cache_contents (cache (snd (fetch_tax_data cfg year w))) \<noteq> cache_contents (cache w)"
  shows "cache_contents (cache w) year = None \<and>
         (\<exists>u. fst (fetch_tax_data cfg year w) = Some (Inr u) \<and>
              cache (snd (fetch_tax_data cfg year w)) = cached_store (cache w) year u)"
proof (cases "cache_contents (cache w) year")
  case (Some v)
  then have "cache_contents (cache (snd (fetch_tax_data cfg year w))) = cache_contents (cache w)"
    by (simp add: fetch_hit contents_after_hit)
  with assms show ?thesis
    by simp
next
  case None
  then have miss: "lru_getitem (cache w) year = None"
    by (rule lru_getitem_miss)
  obtain r rest waits where R: "get_data_retry cfg year 0 (service_answers w) = (r, rest, waits)"
    by (cases "get_data_retry cfg year 0 (service_answers w)")
  show ?thesis
  proof (cases r)
    case none: None
    with assms miss R show ?thesis
      by (simp add: fetch_tax_data_def)
  next
    case (Some x)
    with assms miss R None show ?thesis
      by (cases x) (simp_all add: fetch_tax_data_def)
  qed
qed

section \<open>Claims on \<^verbatim>\<open>fetch_tax_data\<close>\<close>




text \<open>An error response with a status below 500 to the first request ends the
  call with that error after the one request.\<close>

lemma client_error_ends_at_once:
  assumes "cache_contents (cache w) year = None"
    and "service_answers w = s # rest"
    and "get_data cfg year s = Inl (HTTPError code)"
    and "code < 500"
  shows "fetch_tax_data cfg year w = (Some (Inl (HTTPError code)), w\<lparr>service_answers := rest\<rparr>)"
  using assms
  by (simp add: fetch_tax_data_def lru_getitem_miss giveup_def Let_def)

text \<open>
  Claim C8. When the cache holds data for the year, \<^verbatim>\<open>fetch_tax_data\<close> returns that
  data, asks the service for nothing, and leaves what the cache holds and its bound
  as they were; a second call in the state the first one left returns the same and
  leaves that state as it is.
\<close>

theorem cache_hit_bypasses_upstream:
  assumes "cache_contents (cache w) year = Some v"
  shows "fst (fetch_tax_data cfg year w) = Some (Inr v) \<and>
         service_answers (snd (fetch_tax_data cfg year w)) = service_answers w \<and>
         cache_contents (cache (snd (fetch_tax_data cfg year w))) = cache_contents (cache w) \<and>
         maxsize (cache (snd (fetch_tax_data cfg year w))) = maxsize (cache w) \<and>
         fetch_tax_data cfg year (snd (fetch_tax_data cfg year w)) =
           (Some (Inr v), snd (fetch_tax_data cfg year w))"
proof -
  let ?c = "(cache w)\<lparr>entries := move_to_end year v (entries (cache w))\<rparr>"
  have 1: "fetch_tax_data cfg year w = (Some (Inr v), w\<lparr>cache := ?c\<rparr>)"
    using assms by (rule fetch_hit)
  have 2: "cache_contents ?c = cache_contents (cache w)"
    using assms by (rule contents_after_hit)
  have "cache_contents (cache (w\<lparr>cache := ?c\<rparr>)) year = Some v"
    using 2 assms by simp
  then have 3: "fetch_tax_data cfg year (w\<lparr>cache := ?c\<rparr>) = (Some (Inr v), w\<lparr>cache := ?c\<rparr>)"
    by (simp add: fetch_hit move_to_end_twice)
  show ?thesis
    unfolding 1 using 2 3 by simp
qed

text \<open>
  A cache that holds 2021 and 2022, and a service that answers nothing: the call
  for 2021 returns the cached data, and 2021 becomes the most recently used.
\<close>

theorem cache_hit_bypasses_upstream_witness:
  "cache_contents (cache \<lparr>cache = warm_cache, service_answers = []\<rparr>) 2021 = Some test_tax_data \<and>
   fst (fetch_tax_data example_config 2021 \<lparr>cache = warm_cache, service_answers = []\<rparr>)
     = Some (Inr test_tax_data) \<and>
   service_answers (snd (fetch_tax_data example_config 2021
     \<lparr>cache = warm_cache, service_answers = []\<rparr>)) = [] \<and>
   entries (cache (snd (fetch_tax_data example_config 2021
     \<lparr>cache = warm_cache, service_answers = []\<rparr>)))
     = [(2022, \<lparr>tax_brackets = []\<rparr>), (2021, test_tax_data)]"
  using cache_hit_bypasses_upstream [of "\<lparr>cache = warm_cache, service_answers = []\<rparr>"
      2021 test_tax_data example_config]
  by (simp add: cache_contents_def warm_cache_def fetch_tax_data_def lru_getitem_def
      move_to_end_def)

text \<open>
  Claim C9. When \<^verbatim>\<open>fetch_tax_data\<close> raises, the cache is as it was before the call
  and holds nothing for the year. What the cache holds changes only in a call that
  missed and then returned the data of a successful attempt, by the store of that
  data. When, on a miss, transient failures that are all tried again are followed
  by a successful attempt, the data of that attempt is returned and is what is
  stored for the year; the cache then holds it, unless the bound of the cache is
  below 1, where no value can be held.
\<close>

theorem cache_populated_by_success_only:
  "(fst (fetch_tax_data cfg year w) = Some (Inl e) \<longrightarrow>
      cache (snd (fetch_tax_data cfg year w)) = cache w \<and>
      cache_contents (cache (snd (fetch_tax_data cfg year w))) year = None) \<and>
   (cache_contents (cache (snd (fetch_tax_data cfg year w))) \<noteq> cache_contents (cache w) \<longrightarrow>
      cache_contents (cache w) year = None \<and>
      (\<exists>u. fst (fetch_tax_data cfg year w) = Some (Inr u) \<and>
           cache (snd (fetch_tax_data cfg year w)) = cached_store (cache w) year u)) \<and>
   (cache_contents (cache w) year = None \<and> service_answers w = fs @ s # rest \<and>
    (\<forall>f\<in>set fs. transient_failure cfg year f) \<and>
    (tax_api_max_retries cfg < 1 \<or> int (length fs) < tax_api_max_retries cfg) \<and>
    get_data cfg year s = Inr v \<longrightarrow>
      fst (fetch_tax_data cfg year w) = Some (Inr v) \<and>
      service_answers (snd (fetch_tax_data cfg year w)) = rest \<and>
      cache (snd (fetch_tax_data cfg year w)) = cached_store (cache w) year v \<and>
      cache_contents (cache (snd (fetch_tax_data cfg year w))) year =
        (if 1 \<le> maxsize (cache w) then Some v else None))"
proof -
  have raises: "cache (snd (fetch_tax_data cfg year w)) = cache w \<and>
      cache_contents (cache (snd (fetch_tax_data cfg year w))) year = None"
    if "fst (fetch_tax_data cfg year w) = Some (Inl e)"
    using fetch_raises [OF that] by simp
  have changes: "cache_contents (cache w) year = None \<and>
      (\<exists>u. fst (fetch_tax_data cfg year w) = Some (Inr u) \<and>
           cache (snd (fetch_tax_data cfg year w)) = cached_store (cache w) year u)"
    if "cache_contents (cache (snd (fetch_tax_data cfg year w))) \<noteq> cache_contents (cache w)"
    using that by (rule fetch_changes_contents)
  have recovers: "fst (fetch_tax_data cfg year w) = Some (Inr v) \<and>
      service_answers (snd (fetch_tax_data cfg year w)) = rest \<and>
      cache (snd (fetch_tax_data cfg year w)) = cached_store (cache w) year v \<and>
      cache_contents (cache (snd (fetch_tax_data cfg year w))) year =
        (if 1 \<le> maxsize (cache w) then Some v else None)"
    if a: "cache_contents (cache w) year = None \<and> service_answers w = fs @ s # rest \<and>
      (\<forall>f\<in>set fs. transient_failure cfg year f) \<and>
      (tax_api_max_retries cfg < 1 \<or> int (length fs) < tax_api_max_retries cfg) \<and>
      get_data cfg year s = Inr v"
  proof -
    from a have F: "fetch_tax_data cfg year w =
        (Some (Inr v), \<lparr>cache = cached_store (cache w) year v, service_answers = rest\<rparr>)"
      by (intro fetch_recovers) auto
    from a show ?thesis
      by (simp add: F contents_cached_store)
  qed
  from raises changes recovers show ?thesis
    by blast
qed

text \<open>
  With at most 3 tries: three answers 503 make the call raise the third and leave
  the new cache empty; an answer 500 followed by the data makes the call return
  the data, which the cache then holds for 2021.
\<close>

theorem cache_populated_by_success_only_witness:
  "fst (fetch_tax_data example_config 2021
     \<lparr>cache = new_cache example_config,
      service_answers = [answers_with 503, answers_with 503, answers_with 503, serves_2021]\<rparr>)
     = Some (Inl (HTTPError 503)) \<and>
   cache (snd (fetch_tax_data example_config 2021
     \<lparr>cache = new_cache example_config,
      service_answers = [answers_with 503, answers_with 503, answers_with 503, serves_2021]\<rparr>))
     = new_cache example_config \<and>
   fst (fetch_tax_data example_config 2021
     \<lparr>cache = new_cache example_config, service_answers = [answers_with 500, serves_2021]\<rparr>)
     = Some (Inr test_tax_data) \<and>
   cache_contents (cache (snd (fetch_tax_data example_config 2021
     \<lparr>cache = new_cache example_config, service_answers = [answers_with 500, serves_2021]\<rparr>)))
     2021 = Some test_tax_data"
  using
    cache_populated_by_success_only [where cfg = example_config and year = 2021
      and w = "\<lparr>cache = new_cache example_config,
        service_answers = [answers_with 503, answers_with 503, answers_with 503, serves_2021]\<rparr>"
      and e = "HTTPError 503"]
    cache_populated_by_success_only [where cfg = example_config and year = 2021
      and w = "\<lparr>cache = new_cache example_config,
        service_answers = [answers_with 500, serves_2021]\<rparr>"
      and fs = "[answers_with 500]" and s = serves_2021 and rest = "[]" and v = test_tax_data]
  by (simp add: fetch_tax_data_def lru_getitem_def giveup_def transient_failure_def
      get_data_def raise_for_status_def transient_def answers_with_def serves_2021_def
      example_config_def new_cache_def cache_contents_def str_int_def digit_char_def)

section \<open>Claims on \<^verbatim>\<open>calculate_tax\<close>\<close>

text \<open>What answers with the status 400 and the message of the missing parameters:
  a parameter that is absent or rejected, and also one that is 0.\<close>

lemma missing_parameters_iff:
  "calculate_tax cfg req w = (Some (400, Error ''Missing required parameters''), w') \<longleftrightarrow>
     w' = w \<and> (arg_annual_income req = None \<or> arg_annual_income req = Some 0 \<or>
                arg_tax_year req = None \<or> arg_tax_year req = Some 0)"
  by (cases "arg_annual_income req"; cases "arg_tax_year req")
    (auto simp: calculate_tax_def Let_def split: prod.splits option.splits sum.splits)

text \<open>
  Claim C6, at the input where the handler departs from it. The claim: the answer
  with the status 400 and the message of the missing parameters is given precisely
  when a parameter is absent or rejected by its conversion. The handler tests the
  truth value of the two parameters, not their presence: the request with the
  income 0 and the year 2021, both present and accepted, gets that answer.
\<close>

theorem zero_income_reported_missing:
  "calculate_tax cfg \<lparr>arg_annual_income = Some 0, arg_tax_year = Some 2021\<rparr> w =
     (Some (400, Error ''Missing required parameters''), w)"
  by (simp add: calculate_tax_def)

text \<open>
  Claim C10. A request whose two parameters are present and accepted, with the
  income or the year equal to 0, is answered with the status 400 and the message
  of the missing parameters; the cache and the service are left as they were.
\<close>

theorem zero_parameter_rejected:
  assumes "arg_annual_income req = Some a" and "arg_tax_year req = Some y"
    and "a = 0 \<or> y = 0"
  shows "calculate_tax cfg req w = (Some (400, Error ''Missing required parameters''), w)"
  using assms by (auto simp: calculate_tax_def)

text \<open>The year 0 with the income 50000, in a state where the service would answer.\<close>

theorem zero_parameter_rejected_witness:
  "calculate_tax example_config \<lparr>arg_annual_income = Some 50000, arg_tax_year = Some 0\<rparr>
     \<lparr>cache = new_cache example_config, service_answers = [serves_2021]\<rparr>
   = (Some (400, Error ''Missing required parameters''),
      \<lparr>cache = new_cache example_config, service_answers = [serves_2021]\<rparr>)"
  using zero_parameter_rejected [of "\<lparr>arg_annual_income = Some 50000, arg_tax_year = Some 0\<rparr>"
      50000 0 example_config "\<lparr>cache = new_cache example_config, service_answers = [serves_2021]\<rparr>"]
  by simp

text \<open>
  The repository's test of recovery, end to end: the first answer is a 500, the
  second the bracket from 0 to 50197 at 0.15; the request for the income 145000 and
  the year 2021 is answered with the total 7529.55 and the effective rate 5.19.
\<close>

lemma transient_error_and_recovery:
  "fst (calculate_tax example_config
     \<lparr>arg_annual_income = Some 145000, arg_tax_year = Some 2021\<rparr>
     \<lparr>cache = new_cache example_config,
      service_answers =
        [\<lambda>url. Response 500 (Json \<lparr>tax_brackets = []\<rparr>),
         \<lambda>url. Response 200
           (Json \<lparr>tax_brackets = [\<lparr>min_b = 0, max_b = Some 50197, rate = 0.15\<rparr>]\<rparr>)]\<rparr>)
   = Some (200, Result 7529.55 [\<lparr>min_d = 0, max_d = Some 50197, tax_paid = 7529.55\<rparr>] 5.19)"
  by code_simp

text \<open>A year that is not supported is answered with the list of those that are.\<close>

lemma unsupported_year:
  "calculate_tax example_config \<lparr>arg_annual_income = Some 50000, arg_tax_year = Some 2006\<rparr> w
   = (Some (400, Error ''Unsupported tax year. Supported years are: 2021, 2022, 2023''), w)"
  by (simp add: calculate_tax_def example_config_def str_int_def digit_char_def)

end
